theory Spec2Isabelle
  imports Main
begin

section \<open>VaultDue: the reminder engine of the worker\<close>

text \<open>
  A shallow embedding of \<^verbatim>\<open>NotificationService\<close> and \<^verbatim>\<open>ReminderService\<close>
  (\<^verbatim>\<open>src/worker/services\<close>) and of the scheduled handler of \<^verbatim>\<open>src/worker/index.ts\<close>.
  JavaScript strings are \<open>string\<close>, a nullable column is an \<open>option\<close>, the day count
  \<^verbatim>\<open>daysUntilExpiry\<close> (always the result of \<^verbatim>\<open>Math.ceil\<close>) is an \<open>int\<close>, a thrown
  exception is the left summand of a result.
\<close>

subsection \<open>Values and exceptions\<close>

datatype error = TypeError | DbError | NetworkError | SyntaxError

text \<open>\<^verbatim>\<open>!x\<close> and \<^verbatim>\<open>x || d\<close> on a value that is a string, \<^verbatim>\<open>null\<close> or \<^verbatim>\<open>undefined\<close>:
  the empty string is falsy as well.\<close>

fun truthy :: "string option \<Rightarrow> bool" where
  "truthy None = False"
| "truthy (Some s) = (s \<noteq> [])"

fun or_else :: "string option \<Rightarrow> string \<Rightarrow> string" where
  "or_else None d = d"
| "or_else (Some s) d = (if s = [] then d else s)"

subsection \<open>Reminder policy\<close>

text \<open>
  \<^verbatim>\<open>reminderDays\<close> is an object literal read with \<^verbatim>\<open>reminderDays[frequency]\<close>. The read
  finds the literal's own five keys, then the properties every object literal inherits
  from \<^verbatim>\<open>Object.prototype\<close> (functions, and the prototype itself under \<^verbatim>\<open>__proto__\<close>),
  and is \<^verbatim>\<open>undefined\<close> for every other key.
\<close>

datatype property = Days "int list" | Inherited | Undefined

definition object_prototype_keys :: "string list" where
  "object_prototype_keys =
     [''constructor'', ''hasOwnProperty'', ''isPrototypeOf'', ''propertyIsEnumerable'',
      ''toLocaleString'', ''toString'', ''valueOf'', ''__proto__'',
      ''__defineGetter__'', ''__defineSetter__'', ''__lookupGetter__'', ''__lookupSetter__'']"

definition reminderDays :: "string \<Rightarrow> property" where
  "reminderDays key =
     (if key = ''30_days'' then Days [30, 14, 7, 3, 1, 0]
      else if key = ''14_days'' then Days [14, 7, 3, 1, 0]
      else if key = ''7_days'' then Days [7, 3, 1, 0]
      else if key = ''3_days'' then Days [3, 1, 0]
      else if key = ''1_day'' then Days [1, 0]
      else if List.member object_prototype_keys key then Inherited
      else Undefined)"

text \<open>
  \<^verbatim>\<open>shouldSendReminder(doc, daysUntilExpiry)\<close>; of \<^verbatim>\<open>doc\<close> it reads
  \<^verbatim>\<open>reminder_frequency\<close> only. \<^verbatim>\<open>daysToRemind.includes\<close> is a call of
  \<^verbatim>\<open>undefined\<close> when \<^verbatim>\<open>daysToRemind\<close> is not an array: a \<^verbatim>\<open>TypeError\<close>.
\<close>

definition shouldSendReminder :: "string option \<Rightarrow> int \<Rightarrow> error + bool" where
  "shouldSendReminder reminder_frequency daysUntilExpiry =
     (if daysUntilExpiry < 0 then Inr True
      else
        let frequency = or_else reminder_frequency ''30_days'';
            daysToRemind = (case reminderDays frequency of
                              Undefined \<Rightarrow> reminderDays ''30_days''
                            | found \<Rightarrow> found)
        in case daysToRemind of
             Days ds \<Rightarrow> Inr (List.member ds daysUntilExpiry)
           | _ \<Rightarrow> Inl TypeError)"

definition getReminderType :: "int \<Rightarrow> string" where
  "getReminderType daysUntilExpiry =
     (if daysUntilExpiry < 0 then ''expired''
      else if daysUntilExpiry = 0 then ''expires_today''
      else if daysUntilExpiry \<le> 3 then ''expires_soon''
      else if daysUntilExpiry \<le> 7 then ''expires_week''
      else if daysUntilExpiry \<le> 14 then ''expires_two_weeks''
      else ''expires_month'')"

subsection \<open>Phone numbers\<close>

definition is_digit :: "char \<Rightarrow> bool" where
  "is_digit c = List.member ''0123456789'' c"

text \<open>\<^verbatim>\<open>s.replace(/\D/g, '')\<close>\<close>

definition remove_non_digits :: "string \<Rightarrow> string" where
  "remove_non_digits s = filter is_digit s"

text \<open>\<^verbatim>\<open>s.replace(/^(\+|00)/, '')\<close>: the first alternative that matches at the start.\<close>

fun remove_leading :: "string \<Rightarrow> string" where
  "remove_leading (c # cs) =
     (if c = CHR ''+'' then cs
      else (case cs of
              d # ds \<Rightarrow> if c = CHR ''0'' \<and> d = CHR ''0'' then ds else c # cs
            | [] \<Rightarrow> c # cs))"
| "remove_leading [] = []"

definition formatPhoneNumber :: "string \<Rightarrow> string" where
  "formatPhoneNumber phoneNumber =
     (if phoneNumber = [] then []
      else
        let cleaned = remove_non_digits phoneNumber;
            cleaned = remove_leading cleaned;
            cleaned = (if length cleaned = 10 then ''91'' @ cleaned else cleaned)
        in if length cleaned < 10 \<or> length cleaned > 15 then [] else cleaned)"

text \<open>The normalisation as the specification words it, step by step.\<close>

definition normalize_phone_spec :: "string \<Rightarrow> string" where
  "normalize_phone_spec s =
     (let digits = filter (\<lambda>c. c \<in> set ''0123456789'') s;
          stripped = (if take 1 digits = ''+'' then drop 1 digits
                      else if take 2 digits = ''00'' then drop 2 digits
                      else digits);
          national = (if length stripped = 10 then ''91'' @ stripped else stripped)
      in if 10 \<le> length national \<and> length national \<le> 15 then national else [])"


text \<open>The threshold sets of the specification: those of the five known frequencies, the
  \<^verbatim>\<open>30_days\<close> set for every other frequency.\<close>

definition threshold_set :: "string option \<Rightarrow> int set" where
  "threshold_set f =
     (if f = Some ''14_days'' then {14, 7, 3, 1, 0}
      else if f = Some ''7_days'' then {7, 3, 1, 0}
      else if f = Some ''3_days'' then {3, 1, 0}
      else if f = Some ''1_day'' then {1, 0}
      else {30, 14, 7, 3, 1, 0})"

subsection \<open>The store, the transports' side of the network, the configuration\<close>

text \<open>
  A row of the join that both queries of \<^verbatim>\<open>ReminderService\<close> select
  (\<^verbatim>\<open>Document & User & UserProfile\<close>), with the columns the service reads. The profile
  columns are \<^verbatim>\<open>null\<close> when the \<^verbatim>\<open>LEFT JOIN\<close> finds no profile.
  \<^verbatim>\<open>expiration_date\<close> is held as \<^verbatim>\<open>new Date(doc.expiration_date).getTime()\<close>,
  milliseconds since the epoch; the column is \<^verbatim>\<open>DATE NOT NULL\<close>, and a text that is
  no date is not among the rows.
\<close>

record joined_row =
  doc_id :: int
  user_id :: string
  title :: string
  expiration_date :: int
  is_critical :: bool
  status :: string
  email :: "string option"
  phone_number :: "string option"
  preferred_reminder_channel :: "string option"
  reminder_frequency :: "string option"

text \<open>Table \<^verbatim>\<open>reminders\<close>; \<^verbatim>\<open>reminder_date\<close> is the day \<^verbatim>\<open>today\<close> names, counted from
  the epoch.\<close>

record reminder =
  reminder_id :: int
  document_id :: int
  reminder_user_id :: string
  reminder_date :: int
  reminder_type :: string
  is_sent :: bool
  created_at :: int
  updated_at :: int

text \<open>Table \<^verbatim>\<open>activity_logs\<close>.\<close>

record activity_log =
  log_user_id :: string
  action_type :: string
  description :: string
  related_document_id :: "int option"
  log_created_at :: int

text \<open>
  What a D1 statement does when it is run: it takes effect, or it resolves with
  \<^verbatim>\<open>success: false\<close> and no result, or its promise rejects. What a \<^verbatim>\<open>fetch\<close> does:
  it rejects, or it resolves to a response with a status (\<^verbatim>\<open>response.ok\<close>) and a body
  that \<^verbatim>\<open>response.json()\<close> parses or not. The world holds a script of each, read one
  outcome per call; a call beyond the script succeeds.
\<close>

datatype db_outcome = DbOk | DbNoSuccess | DbThrows

datatype fetch_outcome = FetchThrows | Response bool bool

datatype api = WhatsAppApi | TwilioApi | ResendApi

record world =
  documents :: "joined_row list"
  reminders :: "reminder list"
  reminders_seq :: int
  activity_logs :: "activity_log list"
  db_script :: "db_outcome list"
  net_script :: "fetch_outcome list"
  requests :: "(api \<times> string) list"

record env =
  WHATSAPP_ACCESS_TOKEN :: "string option"
  WHATSAPP_PHONE_NUMBER_ID :: "string option"
  RESEND_API_KEY :: "string option"
  TWILIO_ACCOUNT_SID :: "string option"
  TWILIO_AUTH_TOKEN :: "string option"
  TWILIO_PHONE_NUMBER :: "string option"

type_synonym 'a action = "world \<Rightarrow> (error + 'a) \<times> world"

text \<open>Sequencing of awaited calls: an exception skips the rest.\<close>

definition return :: "'a \<Rightarrow> 'a action" where
  "return x w = (Inr x, w)"

definition throw :: "error \<Rightarrow> 'a action" where
  "throw e w = (Inl e, w)"

definition bind :: "'a action \<Rightarrow> ('a \<Rightarrow> 'b action) \<Rightarrow> 'b action" where
  "bind m f w = (case m w of (Inl e, w') \<Rightarrow> (Inl e, w') | (Inr x, w') \<Rightarrow> f x w')"

text \<open>\<^verbatim>\<open>try { m } catch (error) { console.error(...); h }\<close>\<close>

definition try_catch :: "'a action \<Rightarrow> 'a action \<Rightarrow> 'a action" where
  "try_catch m h w = (case m w of (Inl e, w') \<Rightarrow> h w' | (Inr x, w') \<Rightarrow> (Inr x, w'))"

definition next_db :: "world \<Rightarrow> db_outcome \<times> world" where
  "next_db w = (case db_script w of
                  [] \<Rightarrow> (DbOk, w)
                | out # rest \<Rightarrow> (out, w\<lparr>db_script := rest\<rparr>))"

text \<open>\<^verbatim>\<open>await fetch(url, ...)\<close> then \<^verbatim>\<open>await response.json()\<close>; the result is
  \<^verbatim>\<open>response.ok\<close>.\<close>

definition fetch_json :: "api \<Rightarrow> string \<Rightarrow> bool action" where
  "fetch_json a recipient w =
     (let w1 = w\<lparr>requests := requests w @ [(a, recipient)]\<rparr>;
          (out, w2) = (case net_script w1 of
                         [] \<Rightarrow> (Response True True, w1)
                       | out # rest \<Rightarrow> (out, w1\<lparr>net_script := rest\<rparr>))
      in case out of
           FetchThrows \<Rightarrow> (Inl NetworkError, w2)
         | Response ok parses \<Rightarrow> if parses then (Inr ok, w2) else (Inl SyntaxError, w2))"

subsection \<open>Notification transports\<close>

text \<open>The payload of a notification. The message texts the transports format from it
  do not reach the result and are left out.\<close>

record payload =
  to :: string
  documentTitle :: string
  expirationDate :: int
  daysUntilExpiry :: int
  isCritical :: bool

definition sendWhatsAppNotification :: "env \<Rightarrow> payload \<Rightarrow> bool action" where
  "sendWhatsAppNotification e p =
     try_catch
       (if \<not> truthy (WHATSAPP_ACCESS_TOKEN e) \<or> \<not> truthy (WHATSAPP_PHONE_NUMBER_ID e)
        then return False
        else
          let phoneNumber = formatPhoneNumber (to p)
          in if phoneNumber = [] then return False
             else bind (fetch_json WhatsAppApi phoneNumber)
                    (\<lambda>ok. if \<not> ok then return False else return True))
       (return False)"

definition sendSMSNotification :: "env \<Rightarrow> payload \<Rightarrow> bool action" where
  "sendSMSNotification e p =
     try_catch
       (if \<not> truthy (TWILIO_ACCOUNT_SID e) \<or> \<not> truthy (TWILIO_AUTH_TOKEN e)
           \<or> \<not> truthy (TWILIO_PHONE_NUMBER e)
        then return False
        else
          let phoneNumber = formatPhoneNumber (to p)
          in if phoneNumber = [] then return False
             else bind (fetch_json TwilioApi (''+'' @ phoneNumber))
                    (\<lambda>ok. if \<not> ok then return False else return True))
       (return False)"

definition sendEmailNotification :: "env \<Rightarrow> payload \<Rightarrow> bool action" where
  "sendEmailNotification e p =
     try_catch
       (if \<not> truthy (RESEND_API_KEY e) then return False
        else bind (fetch_json ResendApi (to p))
               (\<lambda>ok. if \<not> ok then return False else return True))
       (return False)"

subsection \<open>Reminder service\<close>

definition getNotificationAddress :: "joined_row \<Rightarrow> string \<Rightarrow> string" where
  "getNotificationAddress doc channel =
     (if channel = ''whatsapp'' \<or> channel = ''sms'' then or_else (phone_number doc) []
      else or_else (email doc) [])"

text \<open>\<^verbatim>\<open>payload.to = doc.email\<close>; a \<^verbatim>\<open>null\<close> email is the empty recipient here.\<close>

definition sendNotification :: "env \<Rightarrow> joined_row \<Rightarrow> int \<Rightarrow> bool action" where
  "sendNotification e doc days =
     (let channel = or_else (preferred_reminder_channel doc) ''email'';
          p = \<lparr>to = getNotificationAddress doc channel,
               documentTitle = title doc,
               expirationDate = expiration_date doc,
               daysUntilExpiry = days,
               isCritical = is_critical doc\<rparr>
      in if to p = [] then return False
         else
           try_catch
             (if channel = ''whatsapp'' then
                (if to p = [] then sendEmailNotification e (p\<lparr>to := or_else (email doc) []\<rparr>)
                 else sendWhatsAppNotification e p)
              else if channel = ''sms'' then sendSMSNotification e p
              else sendEmailNotification e p)
             (if channel \<noteq> ''email'' \<and> truthy (email doc)
              then sendEmailNotification e (p\<lparr>to := or_else (email doc) []\<rparr>)
              else return False))"

text \<open>Template literals render a number in decimal.\<close>

fun show_nat :: "nat \<Rightarrow> string" where
  "show_nat n =
     (if n < 10 then [''0123456789'' ! n]
      else show_nat (n div 10) @ [''0123456789'' ! (n mod 10)])"

declare show_nat.simps [simp del]

definition show_int :: "int \<Rightarrow> string" where
  "show_int i = (if i < 0 then CHR ''-'' # show_nat (nat (- i)) else show_nat (nat i))"

definition ms_per_day :: int where
  "ms_per_day = 1000 * 60 * 60 * 24"

text \<open>\<^verbatim>\<open>Math.ceil((expirationDate.getTime() - from) / (1000 * 60 * 60 * 24))\<close>, the
  quotient taken exactly.\<close>

definition days_until :: "int \<Rightarrow> int \<Rightarrow> int" where
  "days_until expiration from = - ((from - expiration) div ms_per_day)"

text \<open>\<^verbatim>\<open>now.toISOString().split('T')[0]\<close>, as a day number; \<^verbatim>\<open>new Date(today)\<close> is the
  midnight (UTC) that starts it.\<close>

definition today_of :: "int \<Rightarrow> int" where
  "today_of now = now div ms_per_day"

definition midnight :: "int \<Rightarrow> int" where
  "midnight today = today * ms_per_day"

text \<open>The statements the service prepares and runs. \<^verbatim>\<open>.all()\<close> without a result has
  \<^verbatim>\<open>results\<close> undefined, and reading its \<^verbatim>\<open>length\<close> throws.\<close>

definition db_all :: "(world \<Rightarrow> 'a list) \<Rightarrow> 'a list action" where
  "db_all rows w =
     (case next_db w of
        (DbOk, w') \<Rightarrow> (Inr (rows w'), w')
      | (DbNoSuccess, w') \<Rightarrow> (Inl TypeError, w')
      | (DbThrows, w') \<Rightarrow> (Inl DbError, w'))"

definition select_active_documents :: "joined_row list action" where
  "select_active_documents = db_all (\<lambda>w. filter (\<lambda>d. status d = ''active'') (documents w))"

definition select_document :: "int \<Rightarrow> string \<Rightarrow> joined_row list action" where
  "select_document documentId userId =
     db_all (\<lambda>w. filter (\<lambda>d. doc_id d = documentId \<and> user_id d = userId) (documents w))"

definition sent_today :: "int \<Rightarrow> int \<Rightarrow> reminder \<Rightarrow> bool" where
  "sent_today documentId today r =
     (document_id r = documentId \<and> reminder_date r = today \<and> is_sent r)"

definition select_sent_reminders :: "int \<Rightarrow> int \<Rightarrow> reminder list action" where
  "select_sent_reminders documentId today =
     db_all (\<lambda>w. filter (sent_today documentId today) (reminders w))"

text \<open>\<^verbatim>\<open>INSERT INTO reminders (...) VALUES (?, ?, ?, ?, 0, ?, ?)\<close>: the result's
  \<^verbatim>\<open>success\<close> and \<^verbatim>\<open>meta.last_row_id\<close>. The key is \<^verbatim>\<open>AUTOINCREMENT\<close>.\<close>

definition new_reminder :: "int \<Rightarrow> joined_row \<Rightarrow> int \<Rightarrow> string \<Rightarrow> int \<Rightarrow> reminder" where
  "new_reminder rid doc today reminderType now =
     \<lparr>reminder_id = rid, document_id = doc_id doc, reminder_user_id = user_id doc,
      reminder_date = today, reminder_type = reminderType, is_sent = False,
      created_at = now, updated_at = now\<rparr>"

definition insert_reminder ::
  "joined_row \<Rightarrow> int \<Rightarrow> string \<Rightarrow> int \<Rightarrow> (bool \<times> int) action" where
  "insert_reminder doc today reminderType now w =
     (case next_db w of
        (DbOk, w') \<Rightarrow>
          (let rid = reminders_seq w' + 1
           in (Inr (True, rid),
               w'\<lparr>reminders := reminders w' @ [new_reminder rid doc today reminderType now],
                  reminders_seq := rid\<rparr>))
      | (DbNoSuccess, w') \<Rightarrow> (Inr (False, reminders_seq w'), w')
      | (DbThrows, w') \<Rightarrow> (Inl DbError, w'))"

text \<open>\<^verbatim>\<open>UPDATE reminders SET is_sent = 1, updated_at = ? WHERE id = ?\<close>\<close>

definition mark_sent :: "int \<Rightarrow> int \<Rightarrow> unit action" where
  "mark_sent now rid w =
     (case next_db w of
        (DbOk, w') \<Rightarrow>
          (Inr (),
           w'\<lparr>reminders :=
                 map (\<lambda>r. if reminder_id r = rid then r\<lparr>is_sent := True, updated_at := now\<rparr>
                          else r)
                   (reminders w')\<rparr>)
      | (DbNoSuccess, w') \<Rightarrow> (Inr (), w')
      | (DbThrows, w') \<Rightarrow> (Inl DbError, w'))"

text \<open>\<^verbatim>\<open>INSERT INTO activity_logs (...) VALUES (?, 'reminder_sent', ?, ?, ?)\<close>\<close>

definition reminder_sent_log :: "joined_row \<Rightarrow> int \<Rightarrow> int \<Rightarrow> activity_log" where
  "reminder_sent_log doc days now =
     \<lparr>log_user_id = user_id doc, action_type = ''reminder_sent'',
      description = ''Reminder sent for '' @ [CHR 0x22] @ title doc @ [CHR 0x22] @ '' (''
                    @ show_int days @ '' days to expiry)'',
      related_document_id = Some (doc_id doc), log_created_at = now\<rparr>"

definition insert_activity_log :: "joined_row \<Rightarrow> int \<Rightarrow> int \<Rightarrow> unit action" where
  "insert_activity_log doc days now w =
     (case next_db w of
        (DbOk, w') \<Rightarrow>
          (Inr (), w'\<lparr>activity_logs := activity_logs w' @ [reminder_sent_log doc days now]\<rparr>)
      | (DbNoSuccess, w') \<Rightarrow> (Inr (), w')
      | (DbThrows, w') \<Rightarrow> (Inl DbError, w'))"

text \<open>\<^verbatim>\<open>processDocumentReminder(doc, today)\<close>. The clock \<^verbatim>\<open>new Date()\<close> only fills the
  timestamp columns; the model reads it once, as \<open>now\<close>.\<close>

definition processDocumentReminder :: "env \<Rightarrow> int \<Rightarrow> joined_row \<Rightarrow> int \<Rightarrow> unit action" where
  "processDocumentReminder e now doc today =
     try_catch
       (let days = days_until (expiration_date doc) (midnight today)
        in case shouldSendReminder (reminder_frequency doc) days of
             Inl err \<Rightarrow> throw err
           | Inr False \<Rightarrow> return ()
           | Inr True \<Rightarrow>
               bind (select_sent_reminders (doc_id doc) today)
                 (\<lambda>existingReminders.
                    if length existingReminders > 0 then return ()
                    else
                      bind (insert_reminder doc today (getReminderType days) now)
                        (\<lambda>(success, last_row_id).
                           if \<not> success then return ()
                           else
                             bind (sendNotification e doc days)
                               (\<lambda>sent.
                                  if sent then
                                    bind (mark_sent now last_row_id)
                                      (\<lambda>_. insert_activity_log doc days now)
                                  else return ()))))
       (return ())"

text \<open>\<^verbatim>\<open>for (const doc of documents) await this.processDocumentReminder(doc, today)\<close>\<close>

fun process_each :: "env \<Rightarrow> int \<Rightarrow> int \<Rightarrow> joined_row list \<Rightarrow> unit action" where
  "process_each e now today [] = return ()"
| "process_each e now today (doc # docs) =
     bind (processDocumentReminder e now doc today) (\<lambda>_. process_each e now today docs)"

definition processReminders :: "env \<Rightarrow> int \<Rightarrow> unit action" where
  "processReminders e now =
     try_catch
       (bind select_active_documents
          (\<lambda>docs. process_each e now (today_of now) docs))
       (return ())"

text \<open>\<^verbatim>\<open>handleScheduledReminders\<close> of \<^verbatim>\<open>index.ts\<close>, which the scheduler awaits.\<close>

definition handleScheduledReminders :: "env \<Rightarrow> int \<Rightarrow> unit action" where
  "handleScheduledReminders e now = try_catch (processReminders e now) (return ())"

definition sendTestReminder :: "env \<Rightarrow> int \<Rightarrow> string \<Rightarrow> int \<Rightarrow> bool action" where
  "sendTestReminder e now userId documentId =
     try_catch
       (bind (select_document documentId userId)
          (\<lambda>docs. case docs of
                     [] \<Rightarrow> return False
                   | doc # _ \<Rightarrow> sendNotification e doc (days_until (expiration_date doc) now)))
       (return False)"

subsection \<open>Notions the properties are stated with\<close>

text \<open>The outcome the script holds for the next statement, and the world after it.\<close>

definition db_head :: "world \<Rightarrow> db_outcome" where
  "db_head w = (case db_script w of [] \<Rightarrow> DbOk | out # _ \<Rightarrow> out)"

definition db_rest :: "world \<Rightarrow> world" where
  "db_rest w = w\<lparr>db_script := tl (db_script w)\<rparr>"

text \<open>The next \<^verbatim>\<open>fetch\<close> resolves to a 2xx response with a JSON body.\<close>

definition first_fetch_ok :: "fetch_outcome list \<Rightarrow> bool" where
  "first_fetch_ok ns = (case ns of [] \<Rightarrow> True | FetchThrows # _ \<Rightarrow> False
                         | Response ok parses # _ \<Rightarrow> ok \<and> parses)"

text \<open>Two worlds with the same tables and the same script of statement outcomes.\<close>

definition same_store :: "world \<Rightarrow> world \<Rightarrow> bool" where
  "same_store w w' \<longleftrightarrow>
     documents w' = documents w \<and> reminders w' = reminders w
     \<and> reminders_seq w' = reminders_seq w \<and> activity_logs w' = activity_logs w
     \<and> db_script w' = db_script w"

text \<open>What \<^verbatim>\<open>sendNotification\<close> returns, read off the configuration, the row and the
  network: the one transport of the preferred channel, tried once.\<close>

definition delivers :: "env \<Rightarrow> joined_row \<Rightarrow> fetch_outcome list \<Rightarrow> bool" where
  "delivers e doc ns =
     (let channel = or_else (preferred_reminder_channel doc) ''email'';
          address = getNotificationAddress doc channel
      in address \<noteq> [] \<and> first_fetch_ok ns \<and>
         (if channel = ''whatsapp'' then
            truthy (WHATSAPP_ACCESS_TOKEN e) \<and> truthy (WHATSAPP_PHONE_NUMBER_ID e)
            \<and> formatPhoneNumber address \<noteq> []
          else if channel = ''sms'' then
            truthy (TWILIO_ACCOUNT_SID e) \<and> truthy (TWILIO_AUTH_TOKEN e)
            \<and> truthy (TWILIO_PHONE_NUMBER e) \<and> formatPhoneNumber address \<noteq> []
          else truthy (RESEND_API_KEY e)))"

text \<open>The \<^verbatim>\<open>AUTOINCREMENT\<close> key of \<^verbatim>\<open>reminders\<close>: every key in the table has been handed
  out by the sequence.\<close>

definition ids_bounded :: "world \<Rightarrow> bool" where
  "ids_bounded w \<longleftrightarrow> (\<forall>r \<in> set (reminders w). reminder_id r \<le> reminders_seq w)"

text \<open>The deduplication key, and the invariant of the table: no two sent rows share it.\<close>

definition reminder_key :: "reminder \<Rightarrow> int \<times> int" where
  "reminder_key r = (document_id r, reminder_date r)"

definition sent_unique :: "reminder list \<Rightarrow> bool" where
  "sent_unique rs = distinct (map reminder_key (filter is_sent rs))"

subsection \<open>A concrete installation\<close>

text \<open>Every credential configured; one active document that expires in seven days,
  its owner on the \<^verbatim>\<open>7_days\<close> frequency and the WhatsApp channel.\<close>

definition example_env :: env where
  "example_env =
     \<lparr>WHATSAPP_ACCESS_TOKEN = Some ''token'', WHATSAPP_PHONE_NUMBER_ID = Some ''1001'',
      RESEND_API_KEY = Some ''key'', TWILIO_ACCOUNT_SID = Some ''sid'',
      TWILIO_AUTH_TOKEN = Some ''auth'', TWILIO_PHONE_NUMBER = Some ''+15550100''\<rparr>"

definition example_doc :: joined_row where
  "example_doc =
     \<lparr>doc_id = 7, user_id = ''u1'', title = ''Lease'',
      expiration_date = 20000 * ms_per_day, is_critical = False, status = ''active'',
      email = Some ''owner@example.com'', phone_number = Some ''8851670050'',
      preferred_reminder_channel = Some ''whatsapp'', reminder_frequency = Some ''7_days''\<rparr>"

definition example_now :: int where
  "example_now = 19993 * ms_per_day + 3600000"

definition example_world :: "joined_row \<Rightarrow> fetch_outcome list \<Rightarrow> world" where
  "example_world doc ns =
     \<lparr>documents = [doc], reminders = [], reminders_seq = 0, activity_logs = [],
      db_script = [], net_script = ns, requests = []\<rparr>"

text \<open>The same installation after the document's reminder of the day has been sent.\<close>

definition reminded_world :: world where
  "reminded_world =
     (example_world example_doc [])
       \<lparr>reminders := [\<lparr>reminder_id = 1, document_id = 7, reminder_user_id = ''u1'',
                       reminder_date = 19993, reminder_type = ''expires_week'',
                       is_sent = True, created_at = example_now,
                       updated_at = example_now\<rparr>],
        reminders_seq := 1\<rparr>"

section \<open>Properties of the policy and of the normaliser\<close>

lemma is_digit_iff: "is_digit c \<longleftrightarrow> c \<in> set ''0123456789''"
  by (simp add: is_digit_def)

lemma remove_leading_take_drop:
  "remove_leading s =
     (if take 1 s = ''+'' then drop 1 s else if take 2 s = ''00'' then drop 2 s else s)"
proof (cases s)
  case Nil
  then show ?thesis by simp
next
  case (Cons c cs)
  then show ?thesis by (cases cs) auto
qed

lemma set_remove_leading: "set (remove_leading s) \<subseteq> set s"
proof (cases s)
  case Nil
  then show ?thesis by simp
next
  case (Cons c cs)
  then show ?thesis by (cases cs) auto
qed

lemma set_remove_non_digits: "set (remove_non_digits s) \<subseteq> set ''0123456789''"
  by (auto simp: remove_non_digits_def is_digit_iff)

lemma shouldSendReminder_expired: "d < 0 \<Longrightarrow> shouldSendReminder f d = Inr True"
  by (simp add: shouldSendReminder_def)

lemma shouldSendReminder_own_keys:
  assumes "\<forall>k. f = Some k \<longrightarrow> k \<notin> set object_prototype_keys"
  shows "shouldSendReminder f d = Inr (d < 0 \<or> d \<in> threshold_set f)"
proof (cases f)
  case None
  then show ?thesis
    by (simp add: shouldSendReminder_def reminderDays_def threshold_set_def)
next
  case (Some k)
  with assms have "k \<notin> set object_prototype_keys" by simp
  with Some show ?thesis
    by (auto simp: shouldSendReminder_def reminderDays_def threshold_set_def Let_def)
qed

text \<open>The normaliser computes what the specification's steps compute.\<close>

lemma formatPhoneNumber_steps: "formatPhoneNumber s = normalize_phone_spec s"
proof -
  let ?d = "remove_non_digits s"
  have d: "?d = filter (\<lambda>c. c \<in> set ''0123456789'') s"
    unfolding remove_non_digits_def is_digit_def by simp
  have "s = [] \<Longrightarrow> ?thesis"
    by (simp add: formatPhoneNumber_def normalize_phone_spec_def)
  moreover have "s \<noteq> [] \<Longrightarrow> ?thesis"
    unfolding formatPhoneNumber_def normalize_phone_spec_def d[symmetric] Let_def
      remove_leading_take_drop
    by (simp add: not_le not_less)
  ultimately show ?thesis by blast
qed

text \<open>
  Claim C5. The urgency tier of a day count: \<^verbatim>\<open>expired\<close> below 0, \<^verbatim>\<open>expires_today\<close> at
  0, \<^verbatim>\<open>expires_soon\<close> from 1 to 3, \<^verbatim>\<open>expires_week\<close> from 4 to 7, \<^verbatim>\<open>expires_two_weeks\<close>
  from 8 to 14, \<^verbatim>\<open>expires_month\<close> above; and the six values the specification lists.
\<close>

theorem getReminderType_tiers:
  "(getReminderType d = ''expired'' \<longleftrightarrow> d < 0)
   \<and> (getReminderType d = ''expires_today'' \<longleftrightarrow> d = 0)
   \<and> (getReminderType d = ''expires_soon'' \<longleftrightarrow> 1 \<le> d \<and> d \<le> 3)
   \<and> (getReminderType d = ''expires_week'' \<longleftrightarrow> 4 \<le> d \<and> d \<le> 7)
   \<and> (getReminderType d = ''expires_two_weeks'' \<longleftrightarrow> 8 \<le> d \<and> d \<le> 14)
   \<and> (getReminderType d = ''expires_month'' \<longleftrightarrow> 14 < d)
   \<and> getReminderType (-5) = ''expired''
   \<and> getReminderType 0 = ''expires_today''
   \<and> getReminderType 2 = ''expires_soon''
   \<and> getReminderType 7 = ''expires_week''
   \<and> getReminderType 10 = ''expires_two_weeks''
   \<and> getReminderType 20 = ''expires_month''"
  by (simp add: getReminderType_def)

text \<open>
  Claim C6. The phone normaliser removes every non-digit, removes a leading \<^verbatim>\<open>+\<close> or
  \<^verbatim>\<open>00\<close>, puts the country code \<^verbatim>\<open>91\<close> before exactly ten digits, and returns the empty
  string when the length is then outside 10..15; the three examples of the specification.
\<close>

theorem formatPhoneNumber_normalizes:
  "formatPhoneNumber s = normalize_phone_spec s
   \<and> formatPhoneNumber ''8851670050'' = ''918851670050''
   \<and> formatPhoneNumber ''+91 88516 70050'' = ''918851670050''
   \<and> formatPhoneNumber ''123'' = []"
proof -
  have "formatPhoneNumber ''8851670050'' = ''918851670050''"
    by (simp add: formatPhoneNumber_def remove_non_digits_def is_digit_def)
  moreover have "formatPhoneNumber ''+91 88516 70050'' = ''918851670050''"
    by (simp add: formatPhoneNumber_def remove_non_digits_def is_digit_def)
  moreover have "formatPhoneNumber ''123'' = []"
    by (simp add: formatPhoneNumber_def remove_non_digits_def is_digit_def)
  ultimately show ?thesis using formatPhoneNumber_steps by simp
qed

text \<open>
  Claim C10. Whatever the input, the phone normaliser returns the empty string or a
  string of decimal digits only, of length 10 to 15.
\<close>

theorem formatPhoneNumber_digits_in_range:
  "formatPhoneNumber s = []
   \<or> (set (formatPhoneNumber s) \<subseteq> set ''0123456789''
      \<and> 10 \<le> length (formatPhoneNumber s) \<and> length (formatPhoneNumber s) \<le> 15)"
proof -
  let ?c = "remove_leading (remove_non_digits s)"
  have c: "set ?c \<subseteq> set ''0123456789''"
    using set_remove_leading set_remove_non_digits by blast
  then have "set (''91'' @ ?c) \<subseteq> set ''0123456789''" by simp
  with c show ?thesis
    unfolding formatPhoneNumber_def Let_def by (auto simp del: set_simps)
qed

section \<open>Properties of the transports and of the reminder service\<close>

lemma bind_apply:
  "bind m f w = (case fst (m w) of Inl e \<Rightarrow> (Inl e, snd (m w)) | Inr x \<Rightarrow> f x (snd (m w)))"
  by (simp add: bind_def split: prod.split sum.split)

lemma try_catch_apply:
  "try_catch m h w = (case fst (m w) of Inl e \<Rightarrow> h (snd (m w)) | Inr x \<Rightarrow> (Inr x, snd (m w)))"
  by (simp add: try_catch_def split: prod.split sum.split)

lemma same_store_refl: "same_store w w"
  by (simp add: same_store_def)

lemma fetch_json_store: "same_store w (snd (fetch_json a rcp w))"
  by (simp add: fetch_json_def same_store_def Let_def split: list.split fetch_outcome.split)

lemma fetch_json_fst:
  "fst (fetch_json a rcp w) =
     (case net_script w of [] \<Rightarrow> Inr True | FetchThrows # _ \<Rightarrow> Inl NetworkError
      | Response ok parses # _ \<Rightarrow> if parses then Inr ok else Inl SyntaxError)"
  by (simp add: fetch_json_def Let_def split: list.split fetch_outcome.split)

lemma fetch_json_requests:
  "requests (snd (fetch_json a rcp w)) = requests w @ [(a, rcp)]"
  by (simp add: fetch_json_def Let_def split: list.split fetch_outcome.split)

text \<open>A transport: guard, then one fetch, everything caught.\<close>

lemma guarded_fetch_fst:
  "fst (try_catch (if \<not> g then return False
                   else bind (fetch_json a rcp) (\<lambda>ok. if \<not> ok then return False else return True))
          (return False) w)
   = Inr (g \<and> first_fetch_ok (net_script w))"
  by (simp add: try_catch_apply bind_apply fetch_json_fst return_def first_fetch_ok_def
      split: list.split fetch_outcome.split)

lemma guarded_fetch_store:
  "same_store w (snd (try_catch (if \<not> g then return False
                   else bind (fetch_json a rcp) (\<lambda>ok. if \<not> ok then return False else return True))
          (return False) w))"
  using fetch_json_store[of w a rcp]
  by (simp add: try_catch_apply bind_apply return_def same_store_refl split: sum.split)

lemma guarded_fetch_requests:
  "requests (snd (try_catch (if \<not> g then return False
                   else bind (fetch_json a rcp) (\<lambda>ok. if \<not> ok then return False else return True))
          (return False) w))
   = (if g then requests w @ [(a, rcp)] else requests w)"
  by (simp add: try_catch_apply bind_apply return_def fetch_json_requests split: sum.split)

lemma whatsapp_as_guarded:
  "sendWhatsAppNotification e p =
     try_catch (if \<not> (truthy (WHATSAPP_ACCESS_TOKEN e) \<and> truthy (WHATSAPP_PHONE_NUMBER_ID e)
                       \<and> formatPhoneNumber (to p) \<noteq> []) then return False
                else bind (fetch_json WhatsAppApi (formatPhoneNumber (to p)))
                       (\<lambda>ok. if \<not> ok then return False else return True))
       (return False)"
  by (simp add: sendWhatsAppNotification_def Let_def)

lemma sms_as_guarded:
  "sendSMSNotification e p =
     try_catch (if \<not> (truthy (TWILIO_ACCOUNT_SID e) \<and> truthy (TWILIO_AUTH_TOKEN e)
                       \<and> truthy (TWILIO_PHONE_NUMBER e)
                       \<and> formatPhoneNumber (to p) \<noteq> []) then return False
                else bind (fetch_json TwilioApi (''+'' @ formatPhoneNumber (to p)))
                       (\<lambda>ok. if \<not> ok then return False else return True))
       (return False)"
  by (simp add: sendSMSNotification_def Let_def)

lemma sendWhatsAppNotification_fst:
  "fst (sendWhatsAppNotification e p w) =
     Inr (truthy (WHATSAPP_ACCESS_TOKEN e) \<and> truthy (WHATSAPP_PHONE_NUMBER_ID e)
          \<and> formatPhoneNumber (to p) \<noteq> [] \<and> first_fetch_ok (net_script w))"
  unfolding whatsapp_as_guarded guarded_fetch_fst by simp

lemma sendSMSNotification_fst:
  "fst (sendSMSNotification e p w) =
     Inr (truthy (TWILIO_ACCOUNT_SID e) \<and> truthy (TWILIO_AUTH_TOKEN e)
          \<and> truthy (TWILIO_PHONE_NUMBER e)
          \<and> formatPhoneNumber (to p) \<noteq> [] \<and> first_fetch_ok (net_script w))"
  unfolding sms_as_guarded guarded_fetch_fst by simp

lemma sendEmailNotification_fst:
  "fst (sendEmailNotification e p w) =
     Inr (truthy (RESEND_API_KEY e) \<and> first_fetch_ok (net_script w))"
  unfolding sendEmailNotification_def guarded_fetch_fst by simp

lemma sendWhatsAppNotification_store: "same_store w (snd (sendWhatsAppNotification e p w))"
  unfolding whatsapp_as_guarded by (rule guarded_fetch_store)

lemma sendSMSNotification_store: "same_store w (snd (sendSMSNotification e p w))"
  unfolding sms_as_guarded by (rule guarded_fetch_store)

lemma sendEmailNotification_store: "same_store w (snd (sendEmailNotification e p w))"
  unfolding sendEmailNotification_def by (rule guarded_fetch_store)

lemma sendNotification_fst:
  "fst (sendNotification e doc days w) = Inr (delivers e doc (net_script w))"
  unfolding sendNotification_def delivers_def Let_def
  by (auto simp: try_catch_apply return_def sendWhatsAppNotification_fst
      sendSMSNotification_fst sendEmailNotification_fst)

lemma sendNotification_store: "same_store w (snd (sendNotification e doc days w))"
  unfolding sendNotification_def Let_def
  by (auto simp: try_catch_apply return_def sendWhatsAppNotification_fst
      sendSMSNotification_fst sendEmailNotification_fst same_store_refl
      sendWhatsAppNotification_store sendSMSNotification_store sendEmailNotification_store)

text \<open>On the WhatsApp and SMS channels no request ever goes to the email API.\<close>

lemma sendWhatsAppNotification_requests:
  "\<exists>rq. requests (snd (sendWhatsAppNotification e p w)) = requests w @ rq
        \<and> ResendApi \<notin> fst ` set rq"
  unfolding whatsapp_as_guarded guarded_fetch_requests by simp

lemma sendSMSNotification_requests:
  "\<exists>rq. requests (snd (sendSMSNotification e p w)) = requests w @ rq
        \<and> ResendApi \<notin> fst ` set rq"
  unfolding sms_as_guarded guarded_fetch_requests by simp

lemma sendNotification_no_email_fallback:
  assumes "or_else (preferred_reminder_channel doc) ''email'' = ''whatsapp''
         \<or> or_else (preferred_reminder_channel doc) ''email'' = ''sms''"
  shows "\<exists>rq. requests (snd (sendNotification e doc days w)) = requests w @ rq
          \<and> ResendApi \<notin> fst ` set rq"
proof -
  let ?channel = "or_else (preferred_reminder_channel doc) ''email''"
  let ?p = "\<lparr>to = getNotificationAddress doc ?channel, documentTitle = title doc,
             expirationDate = expiration_date doc, daysUntilExpiry = days,
             isCritical = is_critical doc\<rparr>"
  show ?thesis
  proof (cases "getNotificationAddress doc ?channel = []")
    case True
    then show ?thesis by (simp add: sendNotification_def Let_def return_def)
  next
    case False
    from assms show ?thesis
    proof
      assume c: "?channel = ''whatsapp''"
      then have "snd (sendNotification e doc days w) = snd (sendWhatsAppNotification e ?p w)"
        using False
        by (simp add: sendNotification_def Let_def try_catch_apply sendWhatsAppNotification_fst)
      with sendWhatsAppNotification_requests[of e ?p w] show ?thesis by simp
    next
      assume c: "?channel = ''sms''"
      then have "snd (sendNotification e doc days w) = snd (sendSMSNotification e ?p w)"
        using False
        by (simp add: sendNotification_def Let_def try_catch_apply sendSMSNotification_fst)
      with sendSMSNotification_requests[of e ?p w] show ?thesis by simp
    qed
  qed
qed

lemma snd_next_db: "snd (next_db w) = w\<lparr>db_script := tl (db_script w)\<rparr>"
  by (cases "db_script w") (simp_all add: next_db_def)

lemma fst_next_db:
  "fst (next_db w) = (case db_script w of [] \<Rightarrow> DbOk | out # _ \<Rightarrow> out)"
  by (cases "db_script w") (simp_all add: next_db_def)

lemma next_db_eq: "next_db w = (db_head w, db_rest w)"
  by (simp add: prod_eq_iff fst_next_db snd_next_db db_head_def db_rest_def)

lemma db_rest_fields [simp]:
  "documents (db_rest w) = documents w"
  "reminders (db_rest w) = reminders w"
  "reminders_seq (db_rest w) = reminders_seq w"
  "activity_logs (db_rest w) = activity_logs w"
  "net_script (db_rest w) = net_script w"
  "requests (db_rest w) = requests w"
  by (simp_all add: db_rest_def)

lemma db_head_update [simp]:
  "db_head (w\<lparr>reminders := rs\<rparr>) = db_head w"
  "db_head (w\<lparr>reminders_seq := n\<rparr>) = db_head w"
  "db_head (w\<lparr>activity_logs := ls\<rparr>) = db_head w"
  by (simp_all add: db_head_def)

lemma db_rest_update [simp]:
  "db_rest (w\<lparr>reminders := rs\<rparr>) = (db_rest w)\<lparr>reminders := rs\<rparr>"
  "db_rest (w\<lparr>reminders_seq := n\<rparr>) = (db_rest w)\<lparr>reminders_seq := n\<rparr>"
  "db_rest (w\<lparr>activity_logs := ls\<rparr>) = (db_rest w)\<lparr>activity_logs := ls\<rparr>"
  by (simp_all add: db_rest_def)

lemma bind_returns: "m w = (Inr x, w1) \<Longrightarrow> bind m f w = f x w1"
  by (simp add: bind_def)

lemma snd_try_catch_return: "snd (try_catch m (return x) w) = snd (m w)"
  by (simp add: try_catch_apply return_def split: sum.split)

lemma db_all_eq:
  "db_all rows w =
     (case db_head w of DbOk \<Rightarrow> Inr (rows (db_rest w)) | DbNoSuccess \<Rightarrow> Inl TypeError
      | DbThrows \<Rightarrow> Inl DbError, db_rest w)"
  by (simp add: db_all_def next_db_eq split: db_outcome.split)

lemma insert_reminder_eq:
  "insert_reminder doc today ty now w =
     (case db_head w of
        DbOk \<Rightarrow> (Inr (True, reminders_seq w + 1),
                 (db_rest w)\<lparr>reminders := reminders w @ [new_reminder (reminders_seq w + 1) doc today ty now],
                             reminders_seq := reminders_seq w + 1\<rparr>)
      | DbNoSuccess \<Rightarrow> (Inr (False, reminders_seq w), db_rest w)
      | DbThrows \<Rightarrow> (Inl DbError, db_rest w))"
  by (simp add: insert_reminder_def next_db_eq Let_def split: db_outcome.split)

lemma mark_sent_eq:
  "mark_sent now rid w =
     (case db_head w of
        DbOk \<Rightarrow> (Inr (),
                 (db_rest w)\<lparr>reminders :=
                    map (\<lambda>r. if reminder_id r = rid then r\<lparr>is_sent := True, updated_at := now\<rparr>
                             else r) (reminders w)\<rparr>)
      | DbNoSuccess \<Rightarrow> (Inr (), db_rest w)
      | DbThrows \<Rightarrow> (Inl DbError, db_rest w))"
  by (simp add: mark_sent_def next_db_eq split: db_outcome.split)

lemma insert_activity_log_eq:
  "insert_activity_log doc days now w =
     (case db_head w of
        DbOk \<Rightarrow> (Inr (),
                 (db_rest w)\<lparr>activity_logs := activity_logs w @ [reminder_sent_log doc days now]\<rparr>)
      | DbNoSuccess \<Rightarrow> (Inr (), db_rest w)
      | DbThrows \<Rightarrow> (Inl DbError, db_rest w))"
  by (simp add: insert_activity_log_def next_db_eq split: db_outcome.split)

text \<open>After the send: the two statements that record a success.\<close>

lemma record_success_effect:
  fixes w3 :: world and now rid days :: int and doc :: joined_row
  defines "w5 \<equiv> snd (bind (mark_sent now rid) (\<lambda>_. insert_activity_log doc days now) w3)"
  assumes rows: "reminders w3 = rs @ [row]" and fresh: "\<forall>r \<in> set rs. reminder_id r \<noteq> rid"
    and rid: "reminder_id row = rid"
  shows "reminders_seq w5 = reminders_seq w3
       \<and> documents w5 = documents w3 \<and> net_script w5 = net_script w3 \<and> requests w5 = requests w3
       \<and> (reminders w5 = rs @ [row]
          \<or> reminders w5 = rs @ [row\<lparr>is_sent := True, updated_at := now\<rparr>])
       \<and> (activity_logs w5 = activity_logs w3
          \<or> activity_logs w5 = activity_logs w3 @ [reminder_sent_log doc days now])"
proof -
  have keep: "map (\<lambda>r. if reminder_id r = rid then r\<lparr>is_sent := True, updated_at := now\<rparr>
                         else r) rs = rs"
    using fresh by (simp add: map_idI)
  show ?thesis
    unfolding w5_def
    by (simp add: bind_apply mark_sent_eq insert_activity_log_eq rows keep rid
        split: db_outcome.split)
qed

lemma deliver_effect:
  fixes w2 :: world and now rid days :: int and doc :: joined_row and e :: env
  defines "w5 \<equiv> snd (bind (sendNotification e doc days)
                       (\<lambda>sent. if sent then bind (mark_sent now rid)
                                               (\<lambda>_. insert_activity_log doc days now)
                               else return ()) w2)"
  assumes rows: "reminders w2 = rs @ [row]" and fresh: "\<forall>r \<in> set rs. reminder_id r \<noteq> rid"
    and rid: "reminder_id row = rid"
  shows "reminders_seq w5 = reminders_seq w2 \<and> documents w5 = documents w2
       \<and> ((reminders w5 = rs @ [row] \<and> activity_logs w5 = activity_logs w2)
          \<or> (delivers e doc (net_script w2)
             \<and> (reminders w5 = rs @ [row]
                \<or> reminders w5 = rs @ [row\<lparr>is_sent := True, updated_at := now\<rparr>])
             \<and> (activity_logs w5 = activity_logs w2
                \<or> activity_logs w5 = activity_logs w2 @ [reminder_sent_log doc days now])))"
proof -
  let ?w3 = "snd (sendNotification e doc days w2)"
  have s3: "same_store w2 ?w3" by (rule sendNotification_store)
  then have rows3: "reminders ?w3 = rs @ [row]" by (simp add: same_store_def rows)
  show ?thesis
  proof (cases "delivers e doc (net_script w2)")
    case False
    then show ?thesis
      using s3 unfolding w5_def
      by (simp add: bind_apply sendNotification_fst return_def same_store_def rows)
  next
    case True
    then have "w5 = snd (bind (mark_sent now rid) (\<lambda>_. insert_activity_log doc days now) ?w3)"
      unfolding w5_def by (simp add: bind_apply[of "sendNotification e doc days"] sendNotification_fst)
    with record_success_effect[OF rows3 fresh rid, of now doc days] True s3
    show ?thesis by (auto simp: same_store_def)
  qed
qed

lemma processDocumentReminder_effect:
  fixes w :: world and doc :: joined_row and today now :: int and e :: env
  assumes bounded: "ids_bounded w"
  defines "days \<equiv> days_until (expiration_date doc) (midnight today)"
  defines "row \<equiv> new_reminder (reminders_seq w + 1) doc today (getReminderType days) now"
  defines "w' \<equiv> snd (processDocumentReminder e now doc today w)"
  shows "documents w' = documents w \<and>
       ((reminders w' = reminders w \<and> reminders_seq w' = reminders_seq w
          \<and> activity_logs w' = activity_logs w)
       \<or> (shouldSendReminder (reminder_frequency doc) days = Inr True
          \<and> filter (sent_today (doc_id doc) today) (reminders w) = []
          \<and> reminders_seq w' = reminders_seq w + 1
          \<and> ((reminders w' = reminders w @ [row] \<and> activity_logs w' = activity_logs w)
             \<or> (delivers e doc (net_script w)
                \<and> (reminders w' = reminders w @ [row]
                   \<or> reminders w' = reminders w @ [row\<lparr>is_sent := True, updated_at := now\<rparr>])
                \<and> (activity_logs w' = activity_logs w
                   \<or> activity_logs w' = activity_logs w @ [reminder_sent_log doc days now])))))"
proof -
  let ?due = "shouldSendReminder (reminder_frequency doc) days"
  let ?deliver = "\<lambda>rid. bind (sendNotification e doc days)
                       (\<lambda>sent. if sent then bind (mark_sent now rid)
                                               (\<lambda>_. insert_activity_log doc days now)
                               else return ())"
  let ?w2 = "(db_rest (db_rest w))\<lparr>reminders := reminders w @ [row],
                                   reminders_seq := reminders_seq w + 1\<rparr>"
  have fresh: "\<forall>r \<in> set (reminders w). reminder_id r \<noteq> reminders_seq w + 1"
    using bounded by (fastforce simp: ids_bounded_def)
  have row_id: "reminder_id row = reminders_seq w + 1"
    by (simp add: row_def new_reminder_def)
  have rows2: "reminders ?w2 = reminders w @ [row]" by simp
  note stage = deliver_effect[OF rows2 fresh row_id, of e doc days now]
  consider (quiet) "?due \<noteq> Inr True \<or> db_head w \<noteq> DbOk
        \<or> filter (sent_today (doc_id doc) today) (reminders w) \<noteq> []
        \<or> db_head (db_rest w) \<noteq> DbOk"
    | (send) "?due = Inr True" "db_head w = DbOk"
        "filter (sent_today (doc_id doc) today) (reminders w) = []"
        "db_head (db_rest w) = DbOk"
    by blast
  then show ?thesis
  proof cases
    case quiet
    then have "reminders w' = reminders w \<and> reminders_seq w' = reminders_seq w
          \<and> activity_logs w' = activity_logs w \<and> documents w' = documents w"
      unfolding w'_def processDocumentReminder_def days_def[symmetric] Let_def
      by (auto simp: try_catch_apply bind_apply throw_def return_def select_sent_reminders_def
          db_all_eq insert_reminder_eq split: sum.split bool.split db_outcome.split)
    then show ?thesis by simp
  next
    case send
    have 1: "select_sent_reminders (doc_id doc) today w = (Inr [], db_rest w)"
      using send by (simp add: select_sent_reminders_def db_all_eq)
    have 2: "insert_reminder doc today (getReminderType days) now (db_rest w)
               = (Inr (True, reminders_seq w + 1), ?w2)"
      using send by (simp add: insert_reminder_eq row_def)
    have "w' = snd (?deliver (reminders_seq w + 1) ?w2)"
      unfolding w'_def processDocumentReminder_def days_def[symmetric] Let_def
        snd_try_catch_return
      by (simp add: send
          bind_returns[of "select_sent_reminders (doc_id doc) today" w "[]" "db_rest w", OF 1]
          bind_returns[of "insert_reminder doc today (getReminderType days) now" "db_rest w"
            "(True, reminders_seq w + 1)" ?w2, OF 2])
    with stage send show ?thesis by auto
  qed
qed

lemma processDocumentReminder_returns: "fst (processDocumentReminder e now doc today w) = Inr ()"
  by (simp add: processDocumentReminder_def try_catch_apply return_def split: sum.split)

lemma process_each_invariant:
  assumes "P w"
    and "\<And>doc w. P w \<Longrightarrow> P (snd (processDocumentReminder e now doc today w))"
  shows "P (snd (process_each e now today docs w))"
  using assms(1)
proof (induction docs arbitrary: w)
  case Nil
  then show ?case by (simp add: return_def)
next
  case (Cons doc docs)
  from Cons.prems have "P (snd (processDocumentReminder e now doc today w))"
    by (rule assms(2))
  then have "P (snd (process_each e now today docs
                      (snd (processDocumentReminder e now doc today w))))"
    by (rule Cons.IH)
  then show ?case
    by (simp add: bind_apply processDocumentReminder_returns)
qed

lemma processReminders_invariant:
  assumes "P w" and "\<And>w. P w \<Longrightarrow> P (db_rest w)"
    and "\<And>doc w. P w \<Longrightarrow> P (snd (processDocumentReminder e now doc (today_of now) w))"
  shows "P (snd (processReminders e now w))"
proof -
  have rest: "P (db_rest w)" using assms(1,2) by blast
  show ?thesis
  proof (cases "db_head w = DbOk")
    case True
    then have "snd (processReminders e now w)
        = snd (process_each e now (today_of now)
                (filter (\<lambda>d. status d = ''active'') (documents w)) (db_rest w))"
      by (simp add: processReminders_def snd_try_catch_return bind_apply
          select_active_documents_def db_all_eq)
    with process_each_invariant[of P "db_rest w", OF rest assms(3)] show ?thesis by simp
  next
    case False
    then have "snd (processReminders e now w) = db_rest w"
      by (cases "db_head w")
         (simp_all add: processReminders_def snd_try_catch_return bind_apply
          select_active_documents_def db_all_eq)
    with rest show ?thesis by simp
  qed
qed

lemma ids_bounded_step:
  assumes "ids_bounded w"
  shows "ids_bounded (snd (processDocumentReminder e now doc today w))"
proof -
  have "\<And>r. r \<in> set (reminders w) \<Longrightarrow> reminder_id r \<le> reminders_seq w + 1"
    using assms by (force simp: ids_bounded_def)
  with processDocumentReminder_effect[OF assms, of e now doc today] assms show ?thesis
    by (auto simp: ids_bounded_def new_reminder_def)
qed

lemma no_sent_today_key:
  "filter (sent_today d t) rs = [] \<longleftrightarrow> (d, t) \<notin> set (map reminder_key (filter is_sent rs))"
  by (auto simp: filter_empty_conv sent_today_def reminder_key_def)

lemma sent_unique_step:
  assumes "ids_bounded w" "sent_unique (reminders w)"
  shows "sent_unique (reminders (snd (processDocumentReminder e now doc today w)))"
  using processDocumentReminder_effect[OF assms(1), of e now doc today] assms(2)
  by (auto simp: sent_unique_def no_sent_today_key new_reminder_def reminder_key_def)

lemma idempotent_step:
  fixes w :: world and doc :: joined_row and today now d :: int and e :: env
  assumes b: "ids_bounded w" and s: "\<exists>r \<in> set (reminders w). sent_today d today r"
  defines "w' \<equiv> snd (processDocumentReminder e now doc today w)"
  shows "(\<exists>r \<in> set (reminders w'). sent_today d today r)
       \<and> filter (\<lambda>r. document_id r = d) (reminders w') = filter (\<lambda>r. document_id r = d) (reminders w)
       \<and> filter (\<lambda>l. related_document_id l = Some d) (activity_logs w')
           = filter (\<lambda>l. related_document_id l = Some d) (activity_logs w)"
proof -
  have other: "filter (sent_today (doc_id doc) today) (reminders w) = [] \<Longrightarrow> doc_id doc \<noteq> d"
    using s by (auto simp: filter_empty_conv)
  show ?thesis
    using processDocumentReminder_effect[OF b, of e now doc today] s other
    unfolding w'_def
    by (auto simp: new_reminder_def reminder_sent_log_def)
qed

text \<open>
  Claim C1. A scheduled pass keeps the invariant that no two sent rows of \<^verbatim>\<open>reminders\<close>
  share (document_id, reminder_date); and when a sent row already exists for a document
  and the day of the pass, the pass leaves that document's reminder rows and that
  document's activity log entries as they were: no second sent row, no second entry.
  The pass is the sequential one of the source; the table's keys are those of its
  \<^verbatim>\<open>AUTOINCREMENT\<close> sequence.
\<close>

theorem processReminders_same_day_idempotent:
  assumes "ids_bounded w"
  shows "(sent_unique (reminders w) \<longrightarrow> sent_unique (reminders (snd (processReminders e now w))))
       \<and> ((\<exists>r \<in> set (reminders w). sent_today d (today_of now) r) \<longrightarrow>
            filter (\<lambda>r. document_id r = d) (reminders (snd (processReminders e now w)))
              = filter (\<lambda>r. document_id r = d) (reminders w)
          \<and> filter (\<lambda>l. related_document_id l = Some d)
                (activity_logs (snd (processReminders e now w)))
              = filter (\<lambda>l. related_document_id l = Some d) (activity_logs w))"
proof (intro conjI impI)
  assume u: "sent_unique (reminders w)"
  let ?P = "\<lambda>w. ids_bounded w \<and> sent_unique (reminders w)"
  have "?P (snd (processReminders e now w))"
  proof (rule processReminders_invariant[of ?P])
    show "?P w" using assms u by simp
    show "\<And>w. ?P w \<Longrightarrow> ?P (db_rest w)" by (simp add: ids_bounded_def)
    show "\<And>doc w. ?P w \<Longrightarrow> ?P (snd (processDocumentReminder e now doc (today_of now) w))"
      using ids_bounded_step sent_unique_step by blast
  qed
  then show "sent_unique (reminders (snd (processReminders e now w)))" by simp
next
  assume s: "\<exists>r \<in> set (reminders w). sent_today d (today_of now) r"
  let ?P = "\<lambda>v. ids_bounded v \<and> (\<exists>r \<in> set (reminders v). sent_today d (today_of now) r)
       \<and> filter (\<lambda>r. document_id r = d) (reminders v) = filter (\<lambda>r. document_id r = d) (reminders w)
       \<and> filter (\<lambda>l. related_document_id l = Some d) (activity_logs v)
           = filter (\<lambda>l. related_document_id l = Some d) (activity_logs w)"
  have P: "?P (snd (processReminders e now w))"
  proof (rule processReminders_invariant[of ?P])
    show "?P w" using assms s by simp
    show "\<And>w. ?P w \<Longrightarrow> ?P (db_rest w)" by (simp add: ids_bounded_def)
    show "\<And>doc v. ?P v \<Longrightarrow> ?P (snd (processDocumentReminder e now doc (today_of now) v))"
      using ids_bounded_step idempotent_step by presburger
  qed
  from P show "filter (\<lambda>r. document_id r = d) (reminders (snd (processReminders e now w)))
              = filter (\<lambda>r. document_id r = d) (reminders w)" by simp
  from P show "filter (\<lambda>l. related_document_id l = Some d)
                (activity_logs (snd (processReminders e now w)))
              = filter (\<lambda>l. related_document_id l = Some d) (activity_logs w)" by simp
qed

text \<open>The pass run again on the installation whose document has been reminded today.\<close>

theorem processReminders_same_day_idempotent_witness:
  "ids_bounded reminded_world \<and> sent_unique (reminders reminded_world)
   \<and> (\<exists>r \<in> set (reminders reminded_world). sent_today 7 (today_of example_now) r)
   \<and> sent_unique (reminders (snd (processReminders example_env example_now reminded_world)))
   \<and> filter (\<lambda>r. document_id r = 7)
        (reminders (snd (processReminders example_env example_now reminded_world)))
       = reminders reminded_world
   \<and> filter (\<lambda>l. related_document_id l = Some 7)
        (activity_logs (snd (processReminders example_env example_now reminded_world))) = []"
proof -
  have b: "ids_bounded reminded_world"
    by (simp add: ids_bounded_def reminded_world_def example_world_def)
  have u: "sent_unique (reminders reminded_world)"
    by (simp add: sent_unique_def reminded_world_def example_world_def)
  have s: "\<exists>r \<in> set (reminders reminded_world). sent_today 7 (today_of example_now) r"
    by (simp add: sent_today_def reminded_world_def example_world_def today_of_def
        example_now_def ms_per_day_def)
  have r: "filter (\<lambda>r. document_id r = 7) (reminders reminded_world) = reminders reminded_world"
    by (simp add: reminded_world_def example_world_def)
  have l: "filter (\<lambda>l. related_document_id l = Some 7) (activity_logs reminded_world) = []"
    by (simp add: reminded_world_def example_world_def)
  from processReminders_same_day_idempotent[OF b, of example_env example_now 7] b u s r l
  show ?thesis by simp
qed

lemma select_active_documents_can_throw:
  "fst (select_active_documents (w\<lparr>db_script := [DbThrows]\<rparr>)) = Inl DbError"
  by (simp add: select_active_documents_def db_all_def next_db_def)

text \<open>
  Claim C7. Whatever the tables hold and whatever the statements and the fetches do, the
  scheduled pass and the handler that awaits it return normally: no exception leaves
  \<^verbatim>\<open>processReminders\<close> or \<^verbatim>\<open>handleScheduledReminders\<close>. (A statement inside may throw:
  \<open>select_active_documents_can_throw\<close>.)
\<close>

theorem processReminders_never_throws:
  "fst (processReminders e now w) = Inr () \<and> fst (handleScheduledReminders e now w) = Inr ()"
  by (simp add: processReminders_def handleScheduledReminders_def try_catch_apply return_def
      split: sum.split)

lemma four_outcomes_ok:
  fixes xs :: "db_outcome list"
  assumes "set (take 4 xs) \<subseteq> {DbOk}"
  shows "(case xs of [] \<Rightarrow> DbOk | out # _ \<Rightarrow> out) = DbOk"
    and "(case tl xs of [] \<Rightarrow> DbOk | out # _ \<Rightarrow> out) = DbOk"
    and "(case tl (tl xs) of [] \<Rightarrow> DbOk | out # _ \<Rightarrow> out) = DbOk"
    and "(case tl (tl (tl xs)) of [] \<Rightarrow> DbOk | out # _ \<Rightarrow> out) = DbOk"
proof -
  show "(case xs of [] \<Rightarrow> DbOk | out # _ \<Rightarrow> out) = DbOk"
    using assms by (cases xs) auto
  show "(case tl xs of [] \<Rightarrow> DbOk | out # _ \<Rightarrow> out) = DbOk"
    using assms by (cases xs; cases "tl xs") auto
  show "(case tl (tl xs) of [] \<Rightarrow> DbOk | out # _ \<Rightarrow> out) = DbOk"
    using assms by (cases xs; cases "tl xs"; cases "tl (tl xs)") auto
  show "(case tl (tl (tl xs)) of [] \<Rightarrow> DbOk | out # _ \<Rightarrow> out) = DbOk"
    using assms by (cases xs; cases "tl xs"; cases "tl (tl xs)"; cases "tl (tl (tl xs))") auto
qed

lemma four_statements_succeed:
  assumes "set (take 4 (db_script w)) \<subseteq> {DbOk}"
  shows "db_head w = DbOk" "db_head (db_rest w) = DbOk"
    "db_head (db_rest (db_rest w)) = DbOk" "db_head (db_rest (db_rest (db_rest w))) = DbOk"
  using four_outcomes_ok[OF assms]
  by (simp_all add: db_head_def db_rest_def)

lemma processDocumentReminder_recorded:
  fixes w :: world and doc :: joined_row and today now :: int and e :: env
  defines "days \<equiv> days_until (expiration_date doc) (midnight today)"
  defines "row \<equiv> new_reminder (reminders_seq w + 1) doc today (getReminderType days) now"
  defines "w' \<equiv> snd (processDocumentReminder e now doc today w)"
  assumes due: "shouldSendReminder (reminder_frequency doc) days = Inr True"
    and first: "filter (sent_today (doc_id doc) today) (reminders w) = []"
    and db: "set (take 4 (db_script w)) \<subseteq> {DbOk}"
    and bounded: "ids_bounded w"
  shows "reminders w' = reminders w @ [if delivers e doc (net_script w)
                                       then row\<lparr>is_sent := True, updated_at := now\<rparr> else row]
       \<and> activity_logs w' = activity_logs w @ (if delivers e doc (net_script w)
                                                then [reminder_sent_log doc days now] else [])"
proof -
  let ?w2 = "(db_rest (db_rest w))\<lparr>reminders := reminders w @ [row],
                                   reminders_seq := reminders_seq w + 1\<rparr>"
  let ?w3 = "snd (sendNotification e doc days ?w2)"
  note ok = four_statements_succeed[OF db]
  have keep: "map (\<lambda>r. if reminder_id r = reminders_seq w + 1
                         then r\<lparr>is_sent := True, updated_at := now\<rparr> else r) (reminders w)
              = reminders w"
    using bounded by (intro map_idI) (force simp: ids_bounded_def)
  have row_id: "reminder_id row = reminders_seq w + 1"
    by (simp add: row_def new_reminder_def)
  have 1: "select_sent_reminders (doc_id doc) today w = (Inr [], db_rest w)"
    using ok first by (simp add: select_sent_reminders_def db_all_eq)
  have 2: "insert_reminder doc today (getReminderType days) now (db_rest w)
             = (Inr (True, reminders_seq w + 1), ?w2)"
    using ok by (simp add: insert_reminder_eq row_def)
  have s3: "same_store ?w2 ?w3" by (rule sendNotification_store)
  have h3: "db_head ?w3 = DbOk" "db_head (db_rest ?w3) = DbOk"
    using ok s3 by (simp_all add: db_head_def db_rest_def same_store_def)
  have w': "w' = snd (bind (sendNotification e doc days)
                       (\<lambda>sent. if sent then bind (mark_sent now (reminders_seq w + 1))
                                               (\<lambda>_. insert_activity_log doc days now)
                               else return ()) ?w2)"
    unfolding w'_def processDocumentReminder_def days_def[symmetric] Let_def
      snd_try_catch_return
    by (simp add: due
        bind_returns[of "select_sent_reminders (doc_id doc) today" w "[]" "db_rest w", OF 1]
        bind_returns[of "insert_reminder doc today (getReminderType days) now" "db_rest w"
          "(True, reminders_seq w + 1)" ?w2, OF 2])
  show ?thesis
  proof (cases "delivers e doc (net_script w)")
    case False
    then show ?thesis
      using s3 unfolding w'
      by (simp add: bind_apply sendNotification_fst return_def same_store_def)
  next
    case True
    then show ?thesis
      using s3 h3 unfolding w'
      by (simp add: bind_apply sendNotification_fst mark_sent_eq insert_activity_log_eq
          same_store_def keep row_id)
  qed
qed

lemmas eval_defs =
  processReminders_def select_active_documents_def db_all_def next_db_def
  processDocumentReminder_def shouldSendReminder_def reminderDays_def
  select_sent_reminders_def insert_reminder_def mark_sent_def insert_activity_log_def
  sendNotification_def getNotificationAddress_def sendWhatsAppNotification_def
  sendSMSNotification_def sendEmailNotification_def fetch_json_def
  try_catch_def bind_def return_def throw_def Let_def
  example_env_def example_doc_def example_now_def example_world_def
  today_of_def midnight_def days_until_def ms_per_day_def sent_today_def
  new_reminder_def getReminderType_def

lemma example_phone: "formatPhoneNumber ''8851670050'' = ''918851670050''"
  by (simp add: formatPhoneNumber_def remove_non_digits_def is_digit_def)

text \<open>
  Claim C2. The due-decision is true exactly when the document has expired or the day
  count is in the threshold set of the frequency, an unknown or missing frequency
  counting as \<^verbatim>\<open>30_days\<close>. \<open>shouldSendReminder_expired\<close> and
  \<open>shouldSendReminder_own_keys\<close> prove this for every frequency but the names an object
  literal inherits. For those the decision is not made at all: with the frequency
  \<^verbatim>\<open>constructor\<close>, \<^verbatim>\<open>reminderDays[frequency]\<close> is the function \<^verbatim>\<open>Object\<close>, the default is
  not taken and \<^verbatim>\<open>includes\<close> is not a function. The day counts 0 and 7 are in the
  threshold set the claim gives such a frequency; the decision throws, and the pass
  writes no reminder for the document that expires in seven days.
\<close>

theorem shouldSendReminder_inherited_key:
  "shouldSendReminder (Some ''constructor'') 0 = Inl TypeError
   \<and> shouldSendReminder (Some ''constructor'') 7 = Inl TypeError
   \<and> 0 \<in> threshold_set (Some ''constructor'')
   \<and> 7 \<in> threshold_set (Some ''constructor'')
   \<and> snd (processReminders example_env example_now
            (example_world (example_doc\<lparr>reminder_frequency := Some ''constructor''\<rparr>) []))
     = example_world (example_doc\<lparr>reminder_frequency := Some ''constructor''\<rparr>) []"
  by (simp add: eval_defs object_prototype_keys_def threshold_set_def)

text \<open>
  Claim C3. With the WhatsApp channel preferred, no phone number on file and an email
  address on file, \<^verbatim>\<open>sendNotification\<close> returns \<^verbatim>\<open>false\<close> at its empty-address check
  and sends nothing, although the email transport would deliver; the scheduled pass
  leaves the reminder row unsent and writes no activity log entry.
\<close>

theorem whatsapp_without_phone_not_sent:
  "sendNotification example_env (example_doc\<lparr>phone_number := None\<rparr>) 7
       (example_world (example_doc\<lparr>phone_number := None\<rparr>) [])
     = (Inr False, example_world (example_doc\<lparr>phone_number := None\<rparr>) [])
   \<and> fst (sendEmailNotification example_env
            \<lparr>to = ''owner@example.com'', documentTitle = ''Lease'',
             expirationDate = 20000 * ms_per_day, daysUntilExpiry = 7, isCritical = False\<rparr>
            (example_world (example_doc\<lparr>phone_number := None\<rparr>) [])) = Inr True
   \<and> snd (processReminders example_env example_now
            (example_world (example_doc\<lparr>phone_number := None\<rparr>) []))
     = (example_world (example_doc\<lparr>phone_number := None\<rparr>) [])
         \<lparr>reminders := [\<lparr>reminder_id = 1, document_id = 7, reminder_user_id = ''u1'',
                         reminder_date = 19993, reminder_type = ''expires_week'',
                         is_sent = False, created_at = example_now,
                         updated_at = example_now\<rparr>],
          reminders_seq := 1\<rparr>"
  by (simp add: eval_defs)

text \<open>
  Claim C4. A WhatsApp delivery that fails, by a non-2xx response or by a \<^verbatim>\<open>fetch\<close> that
  throws, for a user with an email address: \<^verbatim>\<open>sendNotification\<close> returns \<^verbatim>\<open>false\<close> after
  the one WhatsApp request and makes no request to the email API, although the email
  transport, called next, would return \<^verbatim>\<open>true\<close>.
\<close>

theorem failed_whatsapp_no_email_fallback:
  "sendNotification example_env example_doc 7 (example_world example_doc [Response False True])
     = (Inr False, (example_world example_doc [])\<lparr>requests := [(WhatsAppApi, ''918851670050'')]\<rparr>)
   \<and> sendNotification example_env example_doc 7 (example_world example_doc [FetchThrows])
     = (Inr False, (example_world example_doc [])\<lparr>requests := [(WhatsAppApi, ''918851670050'')]\<rparr>)
   \<and> sendEmailNotification example_env
        \<lparr>to = ''owner@example.com'', documentTitle = ''Lease'',
         expirationDate = 20000 * ms_per_day, daysUntilExpiry = 7, isCritical = False\<rparr>
        ((example_world example_doc [])\<lparr>requests := [(WhatsAppApi, ''918851670050'')]\<rparr>)
     = (Inr True, (example_world example_doc [])
          \<lparr>requests := [(WhatsAppApi, ''918851670050''), (ResendApi, ''owner@example.com'')]\<rparr>)"
  by (simp add: eval_defs example_phone)

text \<open>
  Claim C8. Processing one document in a scheduled pass: when the delivery fails, no
  activity log entry is written and the row inserted, if any, stays unsent; at most one
  row and at most one entry, a \<^verbatim>\<open>reminder_sent\<close> one of this document, are added; and for
  a document that is due, not yet reminded today, with the four statements succeeding,
  the row is inserted and is sent with exactly one entry when the delivery succeeds,
  unsent with none when it fails. The delivery succeeds when \<^verbatim>\<open>sendNotification\<close>
  returns \<^verbatim>\<open>true\<close>; the statements that run before it leave the network as it was, so
  its result in the world the document is processed in is its result inside the pass
  (\<open>sendNotification_fst\<close>).
\<close>

theorem processDocumentReminder_records_delivery:
  fixes w :: world and doc :: joined_row and today now :: int and e :: env
  defines "days \<equiv> days_until (expiration_date doc) (midnight today)"
  defines "row \<equiv> new_reminder (reminders_seq w + 1) doc today (getReminderType days) now"
  defines "entry \<equiv> reminder_sent_log doc days now"
  defines "delivered \<equiv> fst (sendNotification e doc days w) = Inr True"
  defines "w' \<equiv> snd (processDocumentReminder e now doc today w)"
  assumes bounded: "ids_bounded w"
  shows "(\<not> delivered \<longrightarrow>
            activity_logs w' = activity_logs w
            \<and> (reminders w' = reminders w \<or> reminders w' = reminders w @ [row]))
       \<and> (reminders w' = reminders w \<or> reminders w' = reminders w @ [row]
          \<or> reminders w' = reminders w @ [row\<lparr>is_sent := True, updated_at := now\<rparr>])
       \<and> (activity_logs w' = activity_logs w \<or> activity_logs w' = activity_logs w @ [entry])
       \<and> (shouldSendReminder (reminder_frequency doc) days = Inr True
            \<and> filter (sent_today (doc_id doc) today) (reminders w) = []
            \<and> set (take 4 (db_script w)) \<subseteq> {DbOk} \<longrightarrow>
            reminders w' = reminders w @ [if delivered
                                          then row\<lparr>is_sent := True, updated_at := now\<rparr>
                                          else row]
            \<and> activity_logs w' = activity_logs w @ (if delivered then [entry] else []))
       \<and> \<not> is_sent row \<and> action_type entry = ''reminder_sent''
       \<and> related_document_id entry = Some (doc_id doc)"
proof -
  have d: "delivered \<longleftrightarrow> delivers e doc (net_script w)"
    by (simp add: delivered_def sendNotification_fst)
  note eff = processDocumentReminder_effect[OF bounded, of e now doc today,
      folded days_def, folded row_def entry_def w'_def]
  note rec = processDocumentReminder_recorded[of doc today w e now,
      folded days_def, folded row_def entry_def w'_def]
  have 1: "\<not> delivered \<longrightarrow> activity_logs w' = activity_logs w
            \<and> (reminders w' = reminders w \<or> reminders w' = reminders w @ [row])"
    using eff d by auto
  have 2: "reminders w' = reminders w \<or> reminders w' = reminders w @ [row]
          \<or> reminders w' = reminders w @ [row\<lparr>is_sent := True, updated_at := now\<rparr>]"
    using eff by auto
  have 3: "activity_logs w' = activity_logs w \<or> activity_logs w' = activity_logs w @ [entry]"
    using eff by auto
  have 4: "shouldSendReminder (reminder_frequency doc) days = Inr True
            \<and> filter (sent_today (doc_id doc) today) (reminders w) = []
            \<and> set (take 4 (db_script w)) \<subseteq> {DbOk} \<longrightarrow>
            reminders w' = reminders w @ [if delivered
                                          then row\<lparr>is_sent := True, updated_at := now\<rparr>
                                          else row]
            \<and> activity_logs w' = activity_logs w @ (if delivered then [entry] else [])"
    using rec bounded unfolding d by blast
  have 5: "\<not> is_sent row \<and> action_type entry = ''reminder_sent''
       \<and> related_document_id entry = Some (doc_id doc)"
    by (simp add: row_def entry_def new_reminder_def reminder_sent_log_def)
  from 1 2 3 4 5 show ?thesis by blast
qed

text \<open>A second document of the same owner, due, with every statement succeeding:
  delivered, it gets one sent row and one entry; with the WhatsApp request failing,
  an unsent row and no entry.\<close>

theorem processDocumentReminder_records_delivery_witness:
  "ids_bounded reminded_world
   \<and> fst (sendNotification example_env (example_doc\<lparr>doc_id := 8\<rparr>) 7 reminded_world) = Inr True
   \<and> reminders (snd (processDocumentReminder example_env example_now
                       (example_doc\<lparr>doc_id := 8\<rparr>) (today_of example_now) reminded_world))
      = reminders reminded_world
        @ [\<lparr>reminder_id = 2, document_id = 8, reminder_user_id = ''u1'',
            reminder_date = 19993, reminder_type = ''expires_week'',
            is_sent = True, created_at = example_now, updated_at = example_now\<rparr>]
   \<and> activity_logs (snd (processDocumentReminder example_env example_now
                       (example_doc\<lparr>doc_id := 8\<rparr>) (today_of example_now) reminded_world))
      = [\<lparr>log_user_id = ''u1'', action_type = ''reminder_sent'',
          description = ''Reminder sent for '' @ [CHR 0x22] @ ''Lease'' @ [CHR 0x22]
                        @ '' (7 days to expiry)'',
          related_document_id = Some 8, log_created_at = example_now\<rparr>]
   \<and> ids_bounded (reminded_world\<lparr>net_script := [Response False True]\<rparr>)
   \<and> fst (sendNotification example_env (example_doc\<lparr>doc_id := 8\<rparr>) 7
            (reminded_world\<lparr>net_script := [Response False True]\<rparr>)) = Inr False
   \<and> reminders (snd (processDocumentReminder example_env example_now
                       (example_doc\<lparr>doc_id := 8\<rparr>) (today_of example_now)
                       (reminded_world\<lparr>net_script := [Response False True]\<rparr>)))
      = reminders reminded_world
        @ [\<lparr>reminder_id = 2, document_id = 8, reminder_user_id = ''u1'',
            reminder_date = 19993, reminder_type = ''expires_week'',
            is_sent = False, created_at = example_now, updated_at = example_now\<rparr>]
   \<and> activity_logs (snd (processDocumentReminder example_env example_now
                       (example_doc\<lparr>doc_id := 8\<rparr>) (today_of example_now)
                       (reminded_world\<lparr>net_script := [Response False True]\<rparr>))) = []"
proof -
  let ?doc = "example_doc\<lparr>doc_id := 8\<rparr>"
  let ?failing = "reminded_world\<lparr>net_script := [Response False True]\<rparr>"
  have b: "ids_bounded reminded_world" "ids_bounded ?failing"
    by (simp_all add: ids_bounded_def reminded_world_def example_world_def)
  have days: "days_until (expiration_date ?doc) (midnight (today_of example_now)) = 7"
    by (simp add: eval_defs)
  have due: "shouldSendReminder (reminder_frequency ?doc) 7 = Inr True"
    by (simp add: eval_defs)
  have first: "filter (sent_today (doc_id ?doc) (today_of example_now))
                 (reminders reminded_world) = []"
    by (simp add: eval_defs reminded_world_def)
  have db: "set (take 4 (db_script reminded_world)) \<subseteq> {DbOk}"
    by (simp add: reminded_world_def example_world_def)
  have sent: "fst (sendNotification example_env ?doc 7 reminded_world) = Inr True"
    by (simp add: eval_defs reminded_world_def example_phone)
  have unsent: "fst (sendNotification example_env ?doc 7 ?failing) = Inr False"
    by (simp add: eval_defs reminded_world_def example_phone)
  have seven: "show_int 7 = ''7''"
    by (simp add: show_int_def show_nat.simps)
  have tables: "reminders_seq reminded_world = 1" "activity_logs reminded_world = []"
    by (simp_all add: reminded_world_def example_world_def)
  have delivered: "reminders (snd (processDocumentReminder example_env example_now ?doc
                       (today_of example_now) reminded_world))
      = reminders reminded_world
        @ [\<lparr>reminder_id = 2, document_id = 8, reminder_user_id = ''u1'',
            reminder_date = 19993, reminder_type = ''expires_week'',
            is_sent = True, created_at = example_now, updated_at = example_now\<rparr>]
    \<and> activity_logs (snd (processDocumentReminder example_env example_now ?doc
                       (today_of example_now) reminded_world))
      = [\<lparr>log_user_id = ''u1'', action_type = ''reminder_sent'',
          description = ''Reminder sent for '' @ [CHR 0x22] @ ''Lease'' @ [CHR 0x22]
                        @ '' (7 days to expiry)'',
          related_document_id = Some 8, log_created_at = example_now\<rparr>]"
    using processDocumentReminder_records_delivery[OF b(1),
        of example_env ?doc "today_of example_now" example_now] due first db sent
    unfolding days
    by (simp add: new_reminder_def reminder_sent_log_def getReminderType_def seven tables
        example_doc_def today_of_def example_now_def ms_per_day_def)
  have failed: "reminders (snd (processDocumentReminder example_env example_now ?doc
                       (today_of example_now) ?failing))
      = reminders reminded_world
        @ [\<lparr>reminder_id = 2, document_id = 8, reminder_user_id = ''u1'',
            reminder_date = 19993, reminder_type = ''expires_week'',
            is_sent = False, created_at = example_now, updated_at = example_now\<rparr>]
    \<and> activity_logs (snd (processDocumentReminder example_env example_now ?doc
                       (today_of example_now) ?failing)) = []"
    using processDocumentReminder_records_delivery[OF b(2),
        of example_env ?doc "today_of example_now" example_now] due first db unsent
    unfolding days
    by (simp add: new_reminder_def getReminderType_def tables
        example_doc_def today_of_def example_now_def ms_per_day_def)
  from b sent unsent delivered failed show ?thesis by simp
qed

lemma sendTestReminder_fst:
  "fst (sendTestReminder e now userId documentId w) =
     Inr (db_head w = DbOk \<and>
          (case filter (\<lambda>d. doc_id d = documentId \<and> user_id d = userId) (documents w) of
             [] \<Rightarrow> False
           | doc # _ \<Rightarrow> delivers e doc (net_script w)))"
  by (cases "db_head w")
     (simp_all add: sendTestReminder_def try_catch_apply bind_apply select_document_def
       db_all_eq return_def sendNotification_fst split: list.split)

lemma sendTestReminder_store:
  "same_store (db_rest w) (snd (sendTestReminder e now userId documentId w))"
  using sendNotification_store[of "db_rest w" e]
  by (cases "db_head w")
     (auto simp: sendTestReminder_def try_catch_apply bind_apply select_document_def
       db_all_eq return_def sendNotification_fst same_store_refl split: list.split sum.split)

lemma delivers_frequency [simp]:
  "delivers e (doc\<lparr>reminder_frequency := f\<rparr>) ns = delivers e doc ns"
  by (simp add: delivers_def getNotificationAddress_def)

text \<open>
  Claim C9. The manual test reminder returns a boolean and writes nothing: the tables
  \<^verbatim>\<open>reminders\<close> and \<^verbatim>\<open>activity_logs\<close> are as before. Its result does not depend on what
  \<^verbatim>\<open>reminders\<close> and \<^verbatim>\<open>activity_logs\<close> hold (no check of the day's reminders) nor on any
  document's reminder frequency (no due-check).
\<close>

theorem sendTestReminder_writes_nothing:
  "(\<exists>b. fst (sendTestReminder e now userId documentId w) = Inr b)
   \<and> reminders (snd (sendTestReminder e now userId documentId w)) = reminders w
   \<and> reminders_seq (snd (sendTestReminder e now userId documentId w)) = reminders_seq w
   \<and> activity_logs (snd (sendTestReminder e now userId documentId w)) = activity_logs w
   \<and> documents (snd (sendTestReminder e now userId documentId w)) = documents w
   \<and> fst (sendTestReminder e now userId documentId (w\<lparr>reminders := rs, activity_logs := ls\<rparr>))
       = fst (sendTestReminder e now userId documentId w)
   \<and> fst (sendTestReminder e now userId documentId
            (w\<lparr>documents := map (\<lambda>d. d\<lparr>reminder_frequency := f d\<rparr>) (documents w)\<rparr>))
       = fst (sendTestReminder e now userId documentId w)"
proof -
  let ?match = "\<lambda>d. doc_id d = documentId \<and> user_id d = userId"
  let ?g = "\<lambda>d. d\<lparr>reminder_frequency := f d\<rparr>"
  have returns: "\<exists>b. fst (sendTestReminder e now userId documentId w) = Inr b"
    by (simp add: sendTestReminder_fst)
  have frame: "reminders (snd (sendTestReminder e now userId documentId w)) = reminders w
     \<and> reminders_seq (snd (sendTestReminder e now userId documentId w)) = reminders_seq w
     \<and> activity_logs (snd (sendTestReminder e now userId documentId w)) = activity_logs w
     \<and> documents (snd (sendTestReminder e now userId documentId w)) = documents w"
    using sendTestReminder_store[of w e now userId documentId] by (simp add: same_store_def)
  have tables: "fst (sendTestReminder e now userId documentId
                      (w\<lparr>reminders := rs, activity_logs := ls\<rparr>))
       = fst (sendTestReminder e now userId documentId w)"
    by (simp add: sendTestReminder_fst cong: list.case_cong)
  have "filter ?match (map ?g (documents w)) = map ?g (filter ?match (documents w))"
    by (simp add: filter_map comp_def)
  then have frequency: "fst (sendTestReminder e now userId documentId
            (w\<lparr>documents := map ?g (documents w)\<rparr>))
       = fst (sendTestReminder e now userId documentId w)"
    by (simp add: sendTestReminder_fst db_head_def split: list.split)
  from returns frame tables frequency show ?thesis by simp
qed


end
